theory Spec2Isabelle
  imports Main "HOL-Library.Sublist"
begin

section \<open>Python values\<close>

text \<open>
  Exceptions are values: a call that may raise returns \<open>exn + 'a\<close>, with \<open>Inl\<close> the
  exception. \<open>DIDLMetadataError\<close> is the only exception the two modules raise
  themselves; the others come from the interpreter and the libraries they call. A
  \<open>DIDLMetadataError\<close> carries its message, a \<open>KeyError\<close> the key, an \<open>AttributeError\<close> the
  name of the attribute that is missing.
\<close>

datatype exn =
    DIDLMetadataError string
  | KeyError string
  | AttributeError string
  | TypeError string
  | ValueError string
  | OtherError string

text \<open>A logging call is recorded as its level and its format string.\<close>

datatype level = DEBUG | INFO | WARNING | ERROR

type_synonym log_record = "level \<times> string"

subsection \<open>String methods\<close>

definition startswith :: "string \<Rightarrow> string \<Rightarrow> bool" where
  "startswith s p = prefix p s"

definition endswith :: "string \<Rightarrow> string \<Rightarrow> bool" where
  "endswith s p = suffix p s"

text \<open>\<open>sub in s\<close>: \<open>sub\<close> occurs in \<open>s\<close>.\<close>

fun str_contains :: "string \<Rightarrow> string \<Rightarrow> bool" where
  "str_contains [] sub = (sub = [])"
| "str_contains (c # s) sub = (if prefix sub (c # s) then True else str_contains s sub)"

text \<open>\<open>s.find(sub)\<close>: the lowest index where \<open>sub\<close> occurs, or \<open>-1\<close>.\<close>

fun str_find :: "string \<Rightarrow> string \<Rightarrow> int" where
  "str_find [] sub = (if sub = [] then 0 else - 1)"
| "str_find (c # s) sub =
     (if prefix sub (c # s) then 0
      else (let k = str_find s sub in if k < 0 then - 1 else k + 1))"

text \<open>\<open>s[:k]\<close>: a negative \<open>k\<close> counts from the end.\<close>

definition slice_to :: "string \<Rightarrow> int \<Rightarrow> string" where
  "slice_to s k = (if k < 0 then take (nat (int (length s) + k)) s else take (nat k) s)"

text \<open>\<open>s[k:]\<close> for \<open>k \<ge> 0\<close>.\<close>

definition slice_from :: "string \<Rightarrow> int \<Rightarrow> string" where
  "slice_from s k = drop (nat k) s"

text \<open>\<open>s.find(sub, start)\<close> for \<open>0 \<le> start\<close>.\<close>

definition str_find_from :: "string \<Rightarrow> string \<Rightarrow> int \<Rightarrow> int" where
  "str_find_from s sub start =
     (if int (length s) < start then - 1
      else (let k = str_find (drop (nat start) s) sub in if k < 0 then - 1 else k + start))"

text \<open>\<open>s.rfind(c)\<close> for a single character: the highest index, or \<open>-1\<close>.\<close>

definition str_rfind_char :: "string \<Rightarrow> char \<Rightarrow> int" where
  "str_rfind_char s c =
     (if c \<in> set s then int (length s) - 1 - int (length (takeWhile (\<lambda>d. d \<noteq> c) (rev s)))
      else - 1)"

text \<open>\<open>s.split(c, 1)\<close>: cut at the first \<open>c\<close>; one piece when there is none.\<close>

definition split1 :: "string \<Rightarrow> char \<Rightarrow> string list" where
  "split1 s c =
     (if c \<in> set s then [takeWhile (\<lambda>d. d \<noteq> c) s, tl (dropWhile (\<lambda>d. d \<noteq> c) s)]
      else [s])"

text \<open>\<open>s.rsplit(c, 1)\<close>: cut at the last \<open>c\<close>; one piece when there is none.\<close>

definition rsplit1 :: "string \<Rightarrow> char \<Rightarrow> string list" where
  "rsplit1 s c =
     (if c \<in> set s
      then [rev (tl (dropWhile (\<lambda>d. d \<noteq> c) (rev s))), rev (takeWhile (\<lambda>d. d \<noteq> c) (rev s))]
      else [s])"

section \<open>The object model\<close>

text \<open>
  The classes themselves (\<open>soco.data_structures\<close>, \<open>soco.music_services.data_structures\<close>)
  are outside the two modules verified here. An object is modelled by what these modules
  read from it and pass to its constructor.
\<close>

text \<open>
  A resource, as the upgrade reads it: \<open>uri\<close> is the text of the \<open>res\<close> element, which is
  \<open>None\<close> for an empty element.
\<close>

datatype resource = DidlResource (uri: "string option") (protocol_info: string)

text \<open>
  \<open>DidlObject\<close>: an object built by a class of the registry; \<open>didl_class\<close> is
  \<open>__class__.__name__\<close>, \<open>didl_title = None\<close> an object without a \<open>title\<close> attribute.

  \<open>MusicServiceItem\<close>: the object the upgrade builds with
  \<open>cls(item_id=, desc=, resources=, uri=, metadata_dict=)\<close>; it records the class and the
  five arguments of that call.
\<close>

datatype item =
    DidlObject (didl_class: string) (didl_item_id: string) (didl_parent_id: string)
      (didl_title: "string option") (didl_resources: "resource list")
  | MusicServiceItem (ms_class: string) (ms_item_id: string) (ms_desc: string)
      (ms_resources: "resource list") (ms_uri: string)
      (ms_metadata_dict: "(string \<times> string) list")

text \<open>\<open>didl_item.resources\<close>\<close>

fun resources :: "item \<Rightarrow> resource list" where
  "resources (DidlObject c i p t rs) = rs"
| "resources (MusicServiceItem c i d rs u md) = rs"

text \<open>\<open>didl_item.title\<close>: an \<open>AttributeError\<close> when the object has no title.\<close>

fun title :: "item \<Rightarrow> exn + string" where
  "title (DidlObject c i p t rs) =
     (case t of None \<Rightarrow> Inl (AttributeError ''title'') | Some s \<Rightarrow> Inr s)"
| "title (MusicServiceItem c i d rs u md) =
     (case map_of md ''title'' of None \<Rightarrow> Inl (AttributeError ''title'') | Some s \<Rightarrow> Inr s)"

text \<open>\<open>didl_item.__class__.__name__\<close>\<close>

fun class_name :: "item \<Rightarrow> string" where
  "class_name (DidlObject c i p t rs) = c"
| "class_name (MusicServiceItem c i d rs u md) = c"

text \<open>\<open>item_id\<close> of either kind of object.\<close>

fun item_id :: "item \<Rightarrow> string" where
  "item_id (DidlObject c i p t rs) = i"
| "item_id (MusicServiceItem c i d rs u md) = i"

section \<open>The upgrade of a music library item to a music service item\<close>

text \<open>\<open>soco/music_services/data_structures_entry.py\<close>, lines 24 to 26.\<close>

definition DIDL_NAME_TO_QUALIFIED_MS_NAME :: "string \<rightharpoonup> string" where
  "DIDL_NAME_TO_QUALIFIED_MS_NAME = [''DidlMusicTrack'' \<mapsto> ''MediaMetadataTrack'']"

text \<open>The result of \<open>urlparse\<close>, a named 6-tuple.\<close>

datatype parse_result = ParseResult (scheme: string) (netloc: string) (path: string)
  (params: string) (query: string) (fragment: string)

subsection \<open>The standard library's \<open>urlparse\<close>\<close>

text \<open>
  \<open>urllib.parse.urlsplit\<close> and \<open>urlparse\<close> of CPython 3.11, for closed instances of the
  theorems below. The model follows the library's steps on plain ASCII text: the scheme
  before the first colon, the network location after \<open>//\<close>, the check for an unmatched
  square bracket, the fragment, the query and the parameters. It leaves out what the
  library does to control characters, to a host in matched brackets and to a network
  location outside ASCII.
\<close>

definition scheme_chars :: string where
  "scheme_chars =
     ''abcdefghijklmnopqrstuvwxyz'' @ ''ABCDEFGHIJKLMNOPQRSTUVWXYZ'' @ ''0123456789'' @ ''+-.''"

definition is_ascii_alpha :: "char \<Rightarrow> bool" where
  "is_ascii_alpha c =
     (c \<in> set (''abcdefghijklmnopqrstuvwxyz'' @ ''ABCDEFGHIJKLMNOPQRSTUVWXYZ''))"

definition ascii_lower :: "string \<Rightarrow> string" where
  "ascii_lower s =
     map (\<lambda>c. case map_of (zip ''ABCDEFGHIJKLMNOPQRSTUVWXYZ'' ''abcdefghijklmnopqrstuvwxyz'') c of
               None \<Rightarrow> c | Some d \<Rightarrow> d) s"

definition uses_params :: "string list" where
  "uses_params =
     ['''', ''ftp'', ''hdl'', ''prospero'', ''http'', ''imap'', ''https'', ''shttp'', ''rtsp'',
      ''rtsps'', ''rtspu'', ''sip'', ''sips'', ''mms'', ''sftp'', ''tel'']"

text \<open>
  \<open>_splitnetloc(url, 2)\<close>: the network location runs from index 2 to the earliest of
  \<open>/\<close>, \<open>?\<close> and \<open>#\<close>, or to the end.
\<close>

definition splitnetloc2 :: "string \<Rightarrow> string \<times> string" where
  "splitnetloc2 url =
     (takeWhile (\<lambda>c. c \<notin> set ''/?#'') (drop 2 url),
      dropWhile (\<lambda>c. c \<notin> set ''/?#'') (drop 2 url))"

definition urlsplit_scheme :: "string \<Rightarrow> string \<times> string" where
  "urlsplit_scheme url =
     (let i = str_find url '':'' in
      if 0 < i \<and> is_ascii_alpha (hd url) \<and> list_all (\<lambda>c. c \<in> set scheme_chars) (slice_to url i)
      then (ascii_lower (slice_to url i), slice_from url (i + 1))
      else ('''', url))"

definition urlsplit :: "string \<Rightarrow> exn + (string \<times> string \<times> string \<times> string \<times> string)" where
  "urlsplit url0 =
     (case urlsplit_scheme url0 of (scheme1, url1) \<Rightarrow>
      (case (if take 2 url1 = ''//'' then splitnetloc2 url1 else ('''', url1)) of
         (netloc1, url2) \<Rightarrow>
           if (CHR ''['' \<in> set netloc1 \<and> CHR '']'' \<notin> set netloc1) \<or>
              (CHR '']'' \<in> set netloc1 \<and> CHR ''['' \<notin> set netloc1)
           then Inl (ValueError ''Invalid IPv6 URL'')
           else
             (case (if CHR ''#'' \<in> set url2
                    then (hd (split1 url2 (CHR ''#'')), hd (tl (split1 url2 (CHR ''#''))))
                    else (url2, '''')) of
                (url3, fragment1) \<Rightarrow>
                  (case (if CHR ''?'' \<in> set url3
                         then (hd (split1 url3 (CHR ''?'')), hd (tl (split1 url3 (CHR ''?''))))
                         else (url3, '''')) of
                     (url4, query1) \<Rightarrow> Inr (scheme1, netloc1, url4, query1, fragment1)))))"

definition splitparams :: "string \<Rightarrow> string \<times> string" where
  "splitparams url =
     (if CHR ''/'' \<in> set url then
        (let i = str_find_from url '';'' (str_rfind_char url (CHR ''/'')) in
         if i < 0 then (url, '''') else (slice_to url i, slice_from url (i + 1)))
      else (let i = str_find url '';'' in (slice_to url i, slice_from url (i + 1))))"

definition cpython_urlparse :: "string \<Rightarrow> exn + parse_result" where
  "cpython_urlparse url0 =
     (case urlsplit url0 of
        Inl e \<Rightarrow> Inl e
      | Inr (scheme1, netloc1, url, query1, fragment1) \<Rightarrow>
          if scheme1 \<in> set uses_params \<and> CHR '';'' \<in> set url
          then (case splitparams url of (url', params1) \<Rightarrow>
                  Inr (ParseResult scheme1 netloc1 url' params1 query1 fragment1))
          else Inr (ParseResult scheme1 netloc1 url '''' query1 fragment1))"

subsection \<open>The upgrade function\<close>

text \<open>The format string of the warning, lines 68 to 74.\<close>

definition upgrade_fail_message :: string where
  "upgrade_fail_message =
     ''DATA STRUCTURE UPGRADE FAIL. Unable to upgrade music library '' @
     ''data structure to music service data structure because an '' @
     ''entry is missing for %s in DIDL_NAME_TO_QUALIFIED_MS_NAME. '' @
     ''This should be reported as a bug.''"

text \<open>
  \<open>attempt_datastructure_upgrade\<close>, lines 29 to 88. The three functions the module
  imports are parameters: \<open>urlparse\<close> (the standard library's, through \<open>soco.compat\<close>),
  \<open>get_class\<close> (which gives the class of a qualified name, here the name of the class,
  and raises \<open>KeyError\<close> when it has none) and \<open>desc_from_uri\<close>. Each may raise. Reading
  \<open>title\<close> raises nothing but the \<open>AttributeError\<close> the source catches. On line 40,
  \<open>resource.uri.startswith\<close> is outside every \<open>try\<close>: a \<open>uri\<close> that is \<open>None\<close> has no
  such method, an \<open>AttributeError\<close>. The function returns its result and the log
  records it emitted.
\<close>

definition attempt_datastructure_upgrade ::
  "(string \<Rightarrow> exn + parse_result) \<Rightarrow> (string \<Rightarrow> exn + string) \<Rightarrow> (string \<Rightarrow> exn + string) \<Rightarrow>
     item \<Rightarrow> (exn + item) \<times> log_record list" where
  "attempt_datastructure_upgrade urlparse get_class desc_from_uri didl_item =
     (case resources didl_item of
        [] \<Rightarrow> (Inr didl_item, [(DEBUG, ''Upgrade not possible, no resources'')])
      | resource # _ \<Rightarrow>
          (case uri resource of
             None \<Rightarrow> (Inl (AttributeError ''startswith''), [])
           | Some u \<Rightarrow>
               if startswith u ''x-sonos-http'' then
                 (case urlparse u of
                    Inl e \<Rightarrow> (Inl e, [])
                  | Inr parsed \<Rightarrow>
                      let path1 = hd (rsplit1 (path parsed) (CHR ''.''));
                          item_id1 = ''11111111'' @ path1;
                          metadata = (case title didl_item of
                                        Inr t \<Rightarrow> [(''title'', t)]
                                      | Inl e \<Rightarrow> [])
                      in
                        (case DIDL_NAME_TO_QUALIFIED_MS_NAME (class_name didl_item) of
                           None \<Rightarrow> (Inr didl_item, [(WARNING, upgrade_fail_message)])
                         | Some qualified \<Rightarrow>
                             (case get_class qualified of
                                Inl (KeyError k) \<Rightarrow>
                                  (Inr didl_item, [(WARNING, upgrade_fail_message)])
                              | Inl e \<Rightarrow> (Inl e, [])
                              | Inr cls \<Rightarrow>
                                  (case desc_from_uri u of
                                     Inl e \<Rightarrow> (Inl e, [])
                                   | Inr desc \<Rightarrow>
                                       (Inr (MusicServiceItem cls item_id1 desc
                                               (resources didl_item) u metadata),
                                        [(DEBUG, ''Item %s upgraded to %s'')])))))
               else (Inr didl_item, [(DEBUG, ''Upgrade not necessary'')])))"

section \<open>The parser\<close>

text \<open>
  \<open>soco/data_structures_entry.py\<close>. The document is the tree \<open>XML.fromstring\<close> returns:
  an element has a tag, attributes, a text and children.
\<close>

datatype element = Element (tag: string) (attrib: "(string \<times> string) list")
  (elem_text: "string option") (children: "element list")

text \<open>
  \<open>elt.findtext(t)\<close> of ElementTree, for a tag \<open>t\<close>: the text of the first child with
  that tag (the empty string when it has no text), \<open>None\<close> when there is no such child.
\<close>

definition findtext :: "element \<Rightarrow> string \<Rightarrow> string option" where
  "findtext elt t =
     (case find (\<lambda>c. tag c = t) (children elt) of
        None \<Rightarrow> None
      | Some c \<Rightarrow> Some (case elem_text c of None \<Rightarrow> '''' | Some s \<Rightarrow> s))"

type_synonym upgrade = "item \<Rightarrow> (exn + item) \<times> log_record list"

text \<open>
  What the module reads from its surroundings: \<open>fromstring\<close> stands for
  \<open>XML.fromstring(string.encode('utf-8'))\<close>, the encoding included, and \<open>ns_tag\<close> for the
  function of \<open>soco.xml\<close>; then the module's two globals as they stand
  when a document is parsed, the dict \<open>_DIDL_CLASS_TO_CLASS\<close> (a class is its
  \<open>from_element\<close>, which may raise) and the list \<open>_UPGRADE_FUNCTIONS\<close>.
\<close>

record didl_module =
  fromstring :: "string \<Rightarrow> exn + element"
  ns_tag :: "string \<Rightarrow> string \<Rightarrow> string"
  DIDL_CLASS_TO_CLASS :: "string \<rightharpoonup> (element \<Rightarrow> exn + item)"
  UPGRADE_FUNCTIONS :: "upgrade list"

text \<open>
  Line 92 of \<open>soco/music_services/data_structures_entry.py\<close>, run when that module is
  imported: \<open>_UPGRADE_FUNCTIONS.append(attempt_datastructure_upgrade)\<close>.
\<close>

definition register_upgrade :: "upgrade \<Rightarrow> didl_module \<Rightarrow> didl_module" where
  "register_upgrade u m = m\<lparr>UPGRADE_FUNCTIONS := UPGRADE_FUNCTIONS m @ [u]\<rparr>"

text \<open>Lines 47 and 48: an unofficial subclass, from the first \<open>.#\<close> on, is cut off.\<close>

definition strip_unofficial_subclass :: "string \<Rightarrow> string" where
  "strip_unofficial_subclass item_class =
     (if str_contains item_class ''.#''
      then slice_to item_class (str_find item_class ''.#'')
      else item_class)"

text \<open>Lines 51 to 54: the lookup in \<open>_DIDL_CLASS_TO_CLASS\<close>.\<close>

definition lookup_class :: "didl_module \<Rightarrow> string \<Rightarrow> exn + (element \<Rightarrow> exn + item)" where
  "lookup_class m item_class =
     (case DIDL_CLASS_TO_CLASS m item_class of
        None \<Rightarrow> Inl (DIDLMetadataError (''Unknown UPnP class: '' @ item_class))
      | Some cls \<Rightarrow> Inr cls)"

definition resolve :: "didl_module \<Rightarrow> string \<Rightarrow> exn + (element \<Rightarrow> exn + item)" where
  "resolve m raw = lookup_class m (strip_unofficial_subclass raw)"

text \<open>Lines 58 and 59: \<open>for upgrade in _UPGRADE_FUNCTIONS: item = upgrade(item)\<close>.\<close>

fun apply_upgrades :: "upgrade list \<Rightarrow> item \<Rightarrow> (exn + item) \<times> log_record list" where
  "apply_upgrades [] item = (Inr item, [])"
| "apply_upgrades (u # us) item =
     (case u item of
        (Inl e, l) \<Rightarrow> (Inl e, l)
      | (Inr item', l) \<Rightarrow> (case apply_upgrades us item' of (r, l') \<Rightarrow> (r, l @ l')))"

text \<open>
  The upgrade chain in the specification's words: a left fold over the registered
  transformations that threads the object, possibly replaced, through each in turn. An
  exception ends the threading; the log records accumulate.
\<close>

definition upgrade_step ::
  "(exn + item) \<times> log_record list \<Rightarrow> upgrade \<Rightarrow> (exn + item) \<times> log_record list" where
  "upgrade_step acc u =
     (case acc of
        (Inl e, l) \<Rightarrow> (Inl e, l)
      | (Inr item, l) \<Rightarrow> (case u item of (r, l') \<Rightarrow> (r, l @ l')))"

text \<open>
  Lines 43 to 59, the branch of an item or container. \<open>findtext\<close> gives \<open>None\<close> for an
  element without a class child, and \<open>'.#' in None\<close> is a \<open>TypeError\<close>.
\<close>

definition construct_item :: "didl_module \<Rightarrow> element \<Rightarrow> (exn + item) \<times> log_record list" where
  "construct_item m elt =
     (case findtext elt (ns_tag m ''upnp'' ''class'') of
        None \<Rightarrow> (Inl (TypeError ''argument of type 'NoneType' is not iterable''), [])
      | Some item_class \<Rightarrow>
          (case resolve m item_class of
             Inl e \<Rightarrow> (Inl e, [])
           | Inr cls \<Rightarrow>
               (case cls elt of
                  Inl e \<Rightarrow> (Inl e, [])
                | Inr item \<Rightarrow> apply_upgrades (UPGRADE_FUNCTIONS m) item)))"

text \<open>Lines 42 to 68, the body of the loop for one child of the root.\<close>

definition from_didl_element :: "didl_module \<Rightarrow> element \<Rightarrow> (exn + item) \<times> log_record list" where
  "from_didl_element m elt =
     (if endswith (tag elt) ''item'' \<or> endswith (tag elt) ''container''
      then construct_item m elt
      else (Inl (DIDLMetadataError (''Illegal child of DIDL element: <'' @ tag elt @ ''>'')), []))"

text \<open>Lines 41 to 68, the loop; \<open>items\<close> is the list built so far.\<close>

fun from_didl_children ::
  "didl_module \<Rightarrow> element list \<Rightarrow> item list \<Rightarrow> (exn + item list) \<times> log_record list" where
  "from_didl_children m [] items = (Inr items, [])"
| "from_didl_children m (elt # rest) items =
     (case from_didl_element m elt of
        (Inl e, l) \<Rightarrow> (Inl e, l)
      | (Inr item, l) \<Rightarrow>
          (case from_didl_children m rest (items @ [item]) of (r, l') \<Rightarrow> (r, l @ l')))"

text \<open>The format string of the log record of lines 69 to 72.\<close>

definition created_message :: string where
  "created_message = ''Created data structures: %.20s (CUT) from Didl string \"%.20s\" (CUT)''"

text \<open>\<open>from_didl_string\<close>, lines 28 to 73.\<close>

definition from_didl_string :: "didl_module \<Rightarrow> string \<Rightarrow> (exn + item list) \<times> log_record list" where
  "from_didl_string m string =
     (case fromstring m string of
        Inl e \<Rightarrow> (Inl e, [])
      | Inr root \<Rightarrow>
          (case from_didl_children m (children root) [] of
             (Inl e, l) \<Rightarrow> (Inl e, l)
           | (Inr items, l) \<Rightarrow>
               (Inr items,
                l @ [(ERROR, created_message)])))"

section \<open>A sample configuration\<close>

text \<open>
  Concrete surroundings for closed instances of the theorems: the namespaces of
  \<open>soco.xml\<close>; one service class and a fixed description; two registered classes in the
  manner of \<open>soco.data_structures\<close>, whose \<open>from_element\<close> checks the tag and the class
  and reads the identifiers from the attributes, the title from the \<open>dc:title\<close> child
  and the resources from the \<open>res\<close> children; and six documents, each with the tree
  ElementTree builds for it.
\<close>

definition sample_ns_tag :: "string \<Rightarrow> string \<Rightarrow> string" where
  "sample_ns_tag ns_id t =
     (if ns_id = ''upnp'' then ''{urn:schemas-upnp-org:metadata-1-0/upnp/}'' @ t
      else if ns_id = ''dc'' then ''{http://purl.org/dc/elements/1.1/}'' @ t
      else ''{urn:schemas-upnp-org:metadata-1-0/DIDL-Lite/}'' @ t)"

definition sample_get_class :: "string \<Rightarrow> exn + string" where
  "sample_get_class qualified =
     (if qualified = ''MediaMetadataTrack'' then Inr ''MSTrack'' else Inl (KeyError qualified))"

definition sample_desc_from_uri :: "string \<Rightarrow> exn + string" where
  "sample_desc_from_uri u = Inr ''RINCON_AssociatedZPUDN''"

definition sample_from_element :: "string \<Rightarrow> string \<Rightarrow> string \<Rightarrow> element \<Rightarrow> exn + item" where
  "sample_from_element name cls_tag cls_item_class elt =
     (if endswith (tag elt) cls_tag then
        (case findtext elt (sample_ns_tag ''upnp'' ''class'') of
           None \<Rightarrow> Inl (AttributeError ''text'')
         | Some c \<Rightarrow>
             if strip_unofficial_subclass c = cls_item_class then
               (case map_of (attrib elt) ''id'' of
                  None \<Rightarrow> Inl (DIDLMetadataError ''Missing id attribute'')
                | Some i \<Rightarrow>
                    (case map_of (attrib elt) ''parentID'' of
                       None \<Rightarrow> Inl (DIDLMetadataError ''Missing parentID attribute'')
                     | Some p \<Rightarrow>
                         Inr (DidlObject name i p
                                (Some (case findtext elt (sample_ns_tag ''dc'' ''title'') of
                                         None \<Rightarrow> '''' | Some t \<Rightarrow> t))
                                (map (\<lambda>r. DidlResource (elem_text r)
                                             (case map_of (attrib r) ''protocolInfo'' of
                                                None \<Rightarrow> '''' | Some pi \<Rightarrow> pi))
                                   (filter (\<lambda>c. tag c = sample_ns_tag '''' ''res'')
                                      (children elt))))))
             else Inl (DIDLMetadataError ''UPnP class is incorrect''))
      else Inl (DIDLMetadataError ''Wrong element''))"

definition sample_classes :: "string \<rightharpoonup> (element \<Rightarrow> exn + item)" where
  "sample_classes =
     [''object.item.audioItem.musicTrack'' \<mapsto>
        sample_from_element ''DidlMusicTrack'' ''item'' ''object.item.audioItem.musicTrack'',
      ''object.container.album.musicAlbum'' \<mapsto>
        sample_from_element ''DidlMusicAlbum'' ''container'' ''object.container.album.musicAlbum'']"

definition sample_track :: item where
  "sample_track =
     DidlObject ''DidlMusicTrack'' ''1'' ''A:TRACKS'' (Some ''Song A'')
       [DidlResource (Some ''x-sonos-http://abc123.mp3'') ''sonos.com-http:*:audio/mpeg:*'']"

definition doc_desc :: string where
  "doc_desc =
     ''<DIDL-Lite xmlns:dc=\"http://purl.org/dc/elements/1.1/\" xmlns:upnp=\"urn:s'' @
     ''chemas-upnp-org:metadata-1-0/upnp/\" xmlns=\"urn:schemas-upnp-org:metadata'' @
     ''-1-0/DIDL-Lite/\"><desc id=\"cdudn\" nameSpace=\"urn:schemas-rinconnetworks-'' @
     ''com:metadata-1-0/\">RINCON_AssociatedZPUDN</desc><item id=\"1\" parentID=\"A'' @
     '':TRACKS\" restricted=\"true\"><dc:title>Song A</dc:title><upnp:class>object'' @
     ''.item.audioItem.musicTrack</upnp:class><res protocolInfo=\"x-file-cifs:*:'' @
     ''audio/mpeg:*\">x-file-cifs://nas/a.mp3</res></item></DIDL-Lite>''"

definition doc_desc_root :: element where
  "doc_desc_root =
     Element ''{urn:schemas-upnp-org:metadata-1-0/DIDL-Lite/}DIDL-Lite''
       []
       None
       [Element ''{urn:schemas-upnp-org:metadata-1-0/DIDL-Lite/}desc''
          [(''id'', ''cdudn''),
           (''nameSpace'', ''urn:schemas-rinconnetworks-com:metadata-1-0/'')]
          (Some ''RINCON_AssociatedZPUDN'') [],
        Element ''{urn:schemas-upnp-org:metadata-1-0/DIDL-Lite/}item''
          [(''id'', ''1''),
           (''parentID'', ''A:TRACKS''),
           (''restricted'', ''true'')]
          None
          [Element ''{http://purl.org/dc/elements/1.1/}title''
             []
             (Some ''Song A'') [],
           Element ''{urn:schemas-upnp-org:metadata-1-0/upnp/}class''
             []
             (Some ''object.item.audioItem.musicTrack'') [],
           Element ''{urn:schemas-upnp-org:metadata-1-0/DIDL-Lite/}res''
             [(''protocolInfo'', ''x-file-cifs:*:audio/mpeg:*'')]
             (Some ''x-file-cifs://nas/a.mp3'') []]]"

definition doc_notanitem :: string where
  "doc_notanitem =
     ''<DIDL-Lite xmlns:dc=\"http://purl.org/dc/elements/1.1/\" xmlns:upnp=\"urn:s'' @
     ''chemas-upnp-org:metadata-1-0/upnp/\" xmlns=\"urn:schemas-upnp-org:metadata'' @
     ''-1-0/DIDL-Lite/\"><notanitem id=\"1\" parentID=\"A:TRACKS\" restricted=\"true\"'' @
     ''><dc:title>Song A</dc:title><upnp:class>object.item.audioItem.musicTrack'' @
     ''</upnp:class><res protocolInfo=\"x-file-cifs:*:audio/mpeg:*\">x-file-cifs:'' @
     ''//nas/a.mp3</res></notanitem></DIDL-Lite>''"

definition doc_notanitem_root :: element where
  "doc_notanitem_root =
     Element ''{urn:schemas-upnp-org:metadata-1-0/DIDL-Lite/}DIDL-Lite''
       []
       None
       [Element ''{urn:schemas-upnp-org:metadata-1-0/DIDL-Lite/}notanitem''
          [(''id'', ''1''),
           (''parentID'', ''A:TRACKS''),
           (''restricted'', ''true'')]
          None
          [Element ''{http://purl.org/dc/elements/1.1/}title''
             []
             (Some ''Song A'') [],
           Element ''{urn:schemas-upnp-org:metadata-1-0/upnp/}class''
             []
             (Some ''object.item.audioItem.musicTrack'') [],
           Element ''{urn:schemas-upnp-org:metadata-1-0/DIDL-Lite/}res''
             [(''protocolInfo'', ''x-file-cifs:*:audio/mpeg:*'')]
             (Some ''x-file-cifs://nas/a.mp3'') []]]"

definition doc_foo :: string where
  "doc_foo =
     ''<DIDL-Lite xmlns:dc=\"http://purl.org/dc/elements/1.1/\" xmlns:upnp=\"urn:s'' @
     ''chemas-upnp-org:metadata-1-0/upnp/\" xmlns=\"urn:schemas-upnp-org:metadata'' @
     ''-1-0/DIDL-Lite/\"><item id=\"1\" parentID=\"A:TRACKS\" restricted=\"true\"><dc:'' @
     ''title>Song A</dc:title><upnp:class>object.item.audioItem.musicTrack</upn'' @
     ''p:class><res protocolInfo=\"x-file-cifs:*:audio/mpeg:*\">x-file-cifs://nas'' @
     ''/a.mp3</res></item><foo/><item id=\"2\" parentID=\"A:TRACKS\" restricted=\"tr'' @
     ''ue\"><dc:title>Song A</dc:title><upnp:class>object.item.audioItem.musicTr'' @
     ''ack</upnp:class><res protocolInfo=\"x-file-cifs:*:audio/mpeg:*\">x-file-ci'' @
     ''fs://nas/b.mp3</res></item></DIDL-Lite>''"

definition doc_foo_root :: element where
  "doc_foo_root =
     Element ''{urn:schemas-upnp-org:metadata-1-0/DIDL-Lite/}DIDL-Lite''
       []
       None
       [Element ''{urn:schemas-upnp-org:metadata-1-0/DIDL-Lite/}item''
          [(''id'', ''1''),
           (''parentID'', ''A:TRACKS''),
           (''restricted'', ''true'')]
          None
          [Element ''{http://purl.org/dc/elements/1.1/}title''
             []
             (Some ''Song A'') [],
           Element ''{urn:schemas-upnp-org:metadata-1-0/upnp/}class''
             []
             (Some ''object.item.audioItem.musicTrack'') [],
           Element ''{urn:schemas-upnp-org:metadata-1-0/DIDL-Lite/}res''
             [(''protocolInfo'', ''x-file-cifs:*:audio/mpeg:*'')]
             (Some ''x-file-cifs://nas/a.mp3'') []],
        Element ''{urn:schemas-upnp-org:metadata-1-0/DIDL-Lite/}foo''
          []
          None [],
        Element ''{urn:schemas-upnp-org:metadata-1-0/DIDL-Lite/}item''
          [(''id'', ''2''),
           (''parentID'', ''A:TRACKS''),
           (''restricted'', ''true'')]
          None
          [Element ''{http://purl.org/dc/elements/1.1/}title''
             []
             (Some ''Song A'') [],
           Element ''{urn:schemas-upnp-org:metadata-1-0/upnp/}class''
             []
             (Some ''object.item.audioItem.musicTrack'') [],
           Element ''{urn:schemas-upnp-org:metadata-1-0/DIDL-Lite/}res''
             [(''protocolInfo'', ''x-file-cifs:*:audio/mpeg:*'')]
             (Some ''x-file-cifs://nas/b.mp3'') []]]"

definition doc_foo_bogus :: string where
  "doc_foo_bogus =
     ''<DIDL-Lite xmlns:dc=\"http://purl.org/dc/elements/1.1/\" xmlns:upnp=\"urn:s'' @
     ''chemas-upnp-org:metadata-1-0/upnp/\" xmlns=\"urn:schemas-upnp-org:metadata'' @
     ''-1-0/DIDL-Lite/\"><foo/><item id=\"2\" parentID=\"A:TRACKS\" restricted=\"true'' @
     ''\"><dc:title>Song A</dc:title><upnp:class>object.item.audioItem.bogus</up'' @
     ''np:class><res protocolInfo=\"x-file-cifs:*:audio/mpeg:*\">x-file-cifs://na'' @
     ''s/b.mp3</res></item></DIDL-Lite>''"

definition doc_foo_bogus_root :: element where
  "doc_foo_bogus_root =
     Element ''{urn:schemas-upnp-org:metadata-1-0/DIDL-Lite/}DIDL-Lite''
       []
       None
       [Element ''{urn:schemas-upnp-org:metadata-1-0/DIDL-Lite/}foo''
          []
          None [],
        Element ''{urn:schemas-upnp-org:metadata-1-0/DIDL-Lite/}item''
          [(''id'', ''2''),
           (''parentID'', ''A:TRACKS''),
           (''restricted'', ''true'')]
          None
          [Element ''{http://purl.org/dc/elements/1.1/}title''
             []
             (Some ''Song A'') [],
           Element ''{urn:schemas-upnp-org:metadata-1-0/upnp/}class''
             []
             (Some ''object.item.audioItem.bogus'') [],
           Element ''{urn:schemas-upnp-org:metadata-1-0/DIDL-Lite/}res''
             [(''protocolInfo'', ''x-file-cifs:*:audio/mpeg:*'')]
             (Some ''x-file-cifs://nas/b.mp3'') []]]"

definition doc_bogus :: string where
  "doc_bogus =
     ''<DIDL-Lite xmlns:dc=\"http://purl.org/dc/elements/1.1/\" xmlns:upnp=\"urn:s'' @
     ''chemas-upnp-org:metadata-1-0/upnp/\" xmlns=\"urn:schemas-upnp-org:metadata'' @
     ''-1-0/DIDL-Lite/\"><item id=\"1\" parentID=\"A:TRACKS\" restricted=\"true\"><dc:'' @
     ''title>Song A</dc:title><upnp:class>object.item.audioItem.musicTrack</upn'' @
     ''p:class><res protocolInfo=\"x-file-cifs:*:audio/mpeg:*\">x-file-cifs://nas'' @
     ''/a.mp3</res></item><item id=\"2\" parentID=\"A:TRACKS\" restricted=\"true\"><d'' @
     ''c:title>Song A</dc:title><upnp:class>object.item.audioItem.bogus.#vendor'' @
     ''X</upnp:class><res protocolInfo=\"x-file-cifs:*:audio/mpeg:*\">x-file-cifs'' @
     ''://nas/b.mp3</res></item></DIDL-Lite>''"

definition doc_bogus_root :: element where
  "doc_bogus_root =
     Element ''{urn:schemas-upnp-org:metadata-1-0/DIDL-Lite/}DIDL-Lite''
       []
       None
       [Element ''{urn:schemas-upnp-org:metadata-1-0/DIDL-Lite/}item''
          [(''id'', ''1''),
           (''parentID'', ''A:TRACKS''),
           (''restricted'', ''true'')]
          None
          [Element ''{http://purl.org/dc/elements/1.1/}title''
             []
             (Some ''Song A'') [],
           Element ''{urn:schemas-upnp-org:metadata-1-0/upnp/}class''
             []
             (Some ''object.item.audioItem.musicTrack'') [],
           Element ''{urn:schemas-upnp-org:metadata-1-0/DIDL-Lite/}res''
             [(''protocolInfo'', ''x-file-cifs:*:audio/mpeg:*'')]
             (Some ''x-file-cifs://nas/a.mp3'') []],
        Element ''{urn:schemas-upnp-org:metadata-1-0/DIDL-Lite/}item''
          [(''id'', ''2''),
           (''parentID'', ''A:TRACKS''),
           (''restricted'', ''true'')]
          None
          [Element ''{http://purl.org/dc/elements/1.1/}title''
             []
             (Some ''Song A'') [],
           Element ''{urn:schemas-upnp-org:metadata-1-0/upnp/}class''
             []
             (Some ''object.item.audioItem.bogus.#vendorX'') [],
           Element ''{urn:schemas-upnp-org:metadata-1-0/DIDL-Lite/}res''
             [(''protocolInfo'', ''x-file-cifs:*:audio/mpeg:*'')]
             (Some ''x-file-cifs://nas/b.mp3'') []]]"

definition doc_tracks :: string where
  "doc_tracks =
     ''<DIDL-Lite xmlns:dc=\"http://purl.org/dc/elements/1.1/\" xmlns:upnp=\"urn:s'' @
     ''chemas-upnp-org:metadata-1-0/upnp/\" xmlns=\"urn:schemas-upnp-org:metadata'' @
     ''-1-0/DIDL-Lite/\"><item id=\"1\" parentID=\"A:TRACKS\" restricted=\"true\"><dc:'' @
     ''title>Song A</dc:title><upnp:class>object.item.audioItem.musicTrack.#ven'' @
     ''dorX</upnp:class><res protocolInfo=\"sonos.com-http:*:audio/mpeg:*\">x-son'' @
     ''os-http://abc123.mp3</res></item><container id=\"2\" parentID=\"A:TRACKS\" r'' @
     ''estricted=\"true\"><dc:title>Album B</dc:title><upnp:class>object.containe'' @
     ''r.album.musicAlbum</upnp:class><res protocolInfo=\"x-file-cifs:*:*:*\">x-f'' @
     ''ile-cifs://nas/b</res></container></DIDL-Lite>''"

definition doc_tracks_root :: element where
  "doc_tracks_root =
     Element ''{urn:schemas-upnp-org:metadata-1-0/DIDL-Lite/}DIDL-Lite''
       []
       None
       [Element ''{urn:schemas-upnp-org:metadata-1-0/DIDL-Lite/}item''
          [(''id'', ''1''),
           (''parentID'', ''A:TRACKS''),
           (''restricted'', ''true'')]
          None
          [Element ''{http://purl.org/dc/elements/1.1/}title''
             []
             (Some ''Song A'') [],
           Element ''{urn:schemas-upnp-org:metadata-1-0/upnp/}class''
             []
             (Some ''object.item.audioItem.musicTrack.#vendorX'') [],
           Element ''{urn:schemas-upnp-org:metadata-1-0/DIDL-Lite/}res''
             [(''protocolInfo'', ''sonos.com-http:*:audio/mpeg:*'')]
             (Some ''x-sonos-http://abc123.mp3'') []],
        Element ''{urn:schemas-upnp-org:metadata-1-0/DIDL-Lite/}container''
          [(''id'', ''2''),
           (''parentID'', ''A:TRACKS''),
           (''restricted'', ''true'')]
          None
          [Element ''{http://purl.org/dc/elements/1.1/}title''
             []
             (Some ''Album B'') [],
           Element ''{urn:schemas-upnp-org:metadata-1-0/upnp/}class''
             []
             (Some ''object.container.album.musicAlbum'') [],
           Element ''{urn:schemas-upnp-org:metadata-1-0/DIDL-Lite/}res''
             [(''protocolInfo'', ''x-file-cifs:*:*:*'')]
             (Some ''x-file-cifs://nas/b'') []]]"

definition sample_fromstring :: "string \<Rightarrow> exn + element" where
  "sample_fromstring string =
     (if string = doc_desc then Inr doc_desc_root
      else if string = doc_notanitem then Inr doc_notanitem_root
      else if string = doc_foo then Inr doc_foo_root
      else if string = doc_foo_bogus then Inr doc_foo_bogus_root
      else if string = doc_bogus then Inr doc_bogus_root
      else if string = doc_tracks then Inr doc_tracks_root
      else Inl (OtherError ''ParseError''))"

definition sample_module :: didl_module where
  "sample_module =
     register_upgrade
       (attempt_datastructure_upgrade cpython_urlparse sample_get_class sample_desc_from_uri)
       \<lparr>fromstring = sample_fromstring, ns_tag = sample_ns_tag,
        DIDL_CLASS_TO_CLASS = sample_classes, UPGRADE_FUNCTIONS = []\<rparr>"

section \<open>Lemmas on strings and on the loop\<close>

lemma from_didl_children_append:
  "from_didl_children m (pre @ rest) items =
     (case from_didl_children m pre items of
        (Inl e, l) \<Rightarrow> (Inl e, l)
      | (Inr items', l) \<Rightarrow>
          (case from_didl_children m rest items' of (r, l') \<Rightarrow> (r, l @ l')))"
proof (induction pre arbitrary: items)
  case Nil
  show ?case by (simp split: prod.splits)
next
  case (Cons elt pre)
  show ?case
    by (simp add: Cons.IH split: prod.splits sum.splits)
qed

lemma str_contains_find: "str_contains s sub = (0 \<le> str_find s sub)"
  by (induction s) (auto simp: Let_def)

lemma str_find_nonneg_or: "str_find s sub = - 1 \<or> 0 \<le> str_find s sub"
  by (induction s) (auto simp: Let_def)






lemma suffix_desc_not_item:
  "suffix ''desc'' t \<Longrightarrow> \<not> suffix ''item'' t \<and> \<not> suffix ''container'' t"
  by (auto simp: suffix_def append_eq_append_conv2 append_eq_Cons_conv Cons_eq_append_conv)

lemma str_contains_iff: "str_contains s sub \<longleftrightarrow> (\<exists>a b. s = a @ sub @ b)"
proof (induction s)
  case Nil
  show ?case by auto
next
  case (Cons c s)
  show ?case
  proof
    assume "str_contains (c # s) sub"
    then consider "prefix sub (c # s)" | "str_contains s sub" by (auto split: if_splits)
    then show "\<exists>a b. c # s = a @ sub @ b"
    proof cases
      case 1
      then obtain b where "c # s = [] @ sub @ b" by (auto simp: prefix_def)
      then show ?thesis by blast
    next
      case 2
      with Cons.IH obtain a b where "s = a @ sub @ b" by blast
      then have "c # s = (c # a) @ sub @ b" by simp
      then show ?thesis by blast
    qed
  next
    assume "\<exists>a b. c # s = a @ sub @ b"
    then obtain a b where ab: "c # s = a @ sub @ b" by blast
    show "str_contains (c # s) sub"
    proof (cases a)
      case Nil
      with ab have "prefix sub (c # s)" by (simp add: prefix_def)
      then show ?thesis by simp
    next
      case (Cons d a')
      with ab have "s = a' @ sub @ b" by simp
      with Cons.IH have "str_contains s sub" by blast
      then show ?thesis by simp
    qed
  qed
qed

lemma from_didl_string_at:
  assumes "fromstring m s = Inr root" and "children root = pre @ elt # post"
    and "from_didl_children m pre [] = (Inr items, l)"
  shows "from_didl_string m s =
     (case from_didl_element m elt of
        (Inl e, l1) \<Rightarrow> (Inl e, l @ l1)
      | (Inr it, l1) \<Rightarrow>
          (case from_didl_children m post (items @ [it]) of
             (Inl e, l2) \<Rightarrow> (Inl e, l @ l1 @ l2)
           | (Inr its, l2) \<Rightarrow> (Inr its, l @ l1 @ l2 @ [(ERROR, created_message)])))"
  using assms
  by (simp add: from_didl_string_def from_didl_children_append split: prod.splits sum.splits)

lemma from_didl_children_success:
  "from_didl_children m xs acc = (Inr items, l) \<Longrightarrow>
   \<exists>new. items = acc @ new \<and>
     list_all2 (\<lambda>elt it. fst (from_didl_element m elt) = Inr it) xs new"
proof (induction xs arbitrary: acc l)
  case Nil
  then show ?case by simp
next
  case (Cons elt xs)
  from Cons.prems obtain it l1 l2 where
    e: "from_didl_element m elt = (Inr it, l1)" and
    r: "from_didl_children m xs (acc @ [it]) = (Inr items, l2)"
    by (auto split: prod.splits sum.splits)
  from Cons.IH [OF r] obtain new where
    "items = (acc @ [it]) @ new" and
    "list_all2 (\<lambda>elt it. fst (from_didl_element m elt) = Inr it) xs new" by blast
  then have "items = acc @ (it # new) \<and>
     list_all2 (\<lambda>elt it. fst (from_didl_element m elt) = Inr it) (elt # xs) (it # new)"
    using e by simp
  then show ?case by blast
qed

lemma from_didl_children_failure:
  "elt \<in> set xs \<Longrightarrow> fst (from_didl_element m elt) = Inl e0 \<Longrightarrow>
   \<exists>e. fst (from_didl_children m xs acc) = Inl e"
proof (induction xs arbitrary: acc)
  case Nil
  then show ?case by simp
next
  case (Cons x xs)
  show ?case
  proof (cases "from_didl_element m x")
    case (Pair r l)
    show ?thesis
    proof (cases r)
      case (Inl e)
      with Pair show ?thesis by simp
    next
      case (Inr it)
      with Pair Cons.prems have "elt \<in> set xs" by auto
      from Cons.IH [OF this Cons.prems(2)] obtain e where
        "fst (from_didl_children m xs (acc @ [it])) = Inl e" by blast
      with Pair Inr show ?thesis by (auto split: prod.splits)
    qed
  qed
qed


lemma element_success:
  "fst (from_didl_element m elt) = Inr it \<Longrightarrow>
   (endswith (tag elt) ''item'' \<or> endswith (tag elt) ''container'') \<and>
   fst (construct_item m elt) = Inr it"
  by (auto simp: from_didl_element_def split: if_splits)

lemma upgrade_step_Inl: "upgrade_step (Inl e, l) u = (Inl e, l)"
  by (simp add: upgrade_step_def)

lemma upgrade_step_Inr:
  "upgrade_step (Inr item, l) u = (case u item of (r, l') \<Rightarrow> (r, l @ l'))"
  by (simp add: upgrade_step_def)

lemma foldl_upgrade_step_Inl: "foldl upgrade_step (Inl e, l) us = (Inl e, l)"
  by (induction us) (simp_all add: upgrade_step_Inl)

lemma foldl_upgrade_step:
  "foldl upgrade_step (Inr item, l0) us =
     (case apply_upgrades us item of (r, l) \<Rightarrow> (r, l0 @ l))"
proof (induction us arbitrary: item l0)
  case Nil
  show ?case by simp
next
  case (Cons u us)
  show ?case
  proof (cases "u item")
    case (Pair r l)
    show ?thesis
    proof (cases r)
      case (Inl e)
      with Pair show ?thesis by (simp add: upgrade_step_Inr foldl_upgrade_step_Inl)
    next
      case (Inr item')
      with Pair show ?thesis by (simp add: upgrade_step_Inr Cons.IH split: prod.splits)
    qed
  qed
qed

lemma apply_upgrades_fold: "apply_upgrades us item = foldl upgrade_step (Inr item, []) us"
  by (simp add: foldl_upgrade_step split: prod.splits)

lemma apply_upgrades_append:
  "apply_upgrades (us @ vs) item =
     (case apply_upgrades us item of
        (Inl e, l) \<Rightarrow> (Inl e, l)
      | (Inr item', l) \<Rightarrow> (case apply_upgrades vs item' of (r, l') \<Rightarrow> (r, l @ l')))"
  by (induction us arbitrary: item) (auto split: prod.splits sum.splits)

lemma apply_upgrades_pure:
  "apply_upgrades (map (\<lambda>g x. (Inr (g x), [])) gs) item = (Inr (foldl (\<lambda>x g. g x) item gs), [])"
  by (induction gs arbitrary: item) simp_all

subsection \<open>The sample documents\<close>

lemma sample_fromstring_docs:
  "fromstring sample_module doc_desc = Inr doc_desc_root"
  "fromstring sample_module doc_notanitem = Inr doc_notanitem_root"
  "fromstring sample_module doc_foo = Inr doc_foo_root"
  "fromstring sample_module doc_foo_bogus = Inr doc_foo_bogus_root"
  "fromstring sample_module doc_bogus = Inr doc_bogus_root"
  "fromstring sample_module doc_tracks = Inr doc_tracks_root"
  by code_simp+

lemma sample_children_lengths:
  "length (children doc_desc_root) = 2"
  "length (children doc_foo_root) = 3"
  "length (children doc_foo_bogus_root) = 2"
  "length (children doc_bogus_root) = 2"
  "length (children doc_tracks_root) = 2"
  by (simp_all add: doc_desc_root_def doc_foo_root_def doc_foo_bogus_root_def
      doc_bogus_root_def doc_tracks_root_def)

lemma sample_class_unknown:
  "DIDL_CLASS_TO_CLASS sample_module ''object.item.audioItem.bogus'' = None"
  by (simp add: sample_module_def register_upgrade_def sample_classes_def)

lemma sample_class_track:
  "DIDL_CLASS_TO_CLASS sample_module ''object.item.audioItem.musicTrack'' =
     Some (sample_from_element ''DidlMusicTrack'' ''item'' ''object.item.audioItem.musicTrack'')"
  by (simp add: sample_module_def register_upgrade_def sample_classes_def)

lemma sample_upgrade_functions:
  "UPGRADE_FUNCTIONS sample_module =
     [attempt_datastructure_upgrade cpython_urlparse sample_get_class sample_desc_from_uri]"
  by (simp add: sample_module_def register_upgrade_def)

lemma strip_samples:
  "strip_unofficial_subclass ''object.item.audioItem.bogus'' = ''object.item.audioItem.bogus''"
  "strip_unofficial_subclass ''object.item.audioItem.bogus.#vendorX'' =
     ''object.item.audioItem.bogus''"
  "strip_unofficial_subclass ''object.item.audioItem.musicTrack.#vendorX'' =
     ''object.item.audioItem.musicTrack''"
  by code_simp+

section \<open>The upgrade function\<close>




text \<open>
  Claim C8, as amended. For an item whose first resource's URI starts with
  \<open>x-sonos-http\<close> and whose class name has no entry in
  \<open>DIDL_NAME_TO_QUALIFIED_MS_NAME\<close>, the function returns the item unchanged and logs
  one warning, provided \<open>urlparse\<close> returns. The URI is split before the table is read
  (line 44), outside every \<open>try\<close>: an exception of \<open>urlparse\<close> leaves the function.
\<close>

theorem missing_entry_unchanged:
  "resources didl_item = r # rs \<Longrightarrow> uri r = Some u \<Longrightarrow> startswith u ''x-sonos-http'' \<Longrightarrow>
   DIDL_NAME_TO_QUALIFIED_MS_NAME (class_name didl_item) = None \<Longrightarrow>
   attempt_datastructure_upgrade urlparse get_class desc_from_uri didl_item =
     (case urlparse u of
        Inl e \<Rightarrow> (Inl e, [])
      | Inr parsed \<Rightarrow> (Inr didl_item, [(WARNING, upgrade_fail_message)]))"
  by (simp add: attempt_datastructure_upgrade_def Let_def split: sum.splits)

text \<open>An album (no entry in the table) with a service URI that \<open>urlparse\<close> accepts.\<close>

theorem missing_entry_unchanged_witness:
  "startswith ''x-sonos-http:track%3a123.mp3?sid=2'' ''x-sonos-http'' \<and>
   DIDL_NAME_TO_QUALIFIED_MS_NAME ''DidlMusicAlbum'' = None \<and>
   attempt_datastructure_upgrade cpython_urlparse sample_get_class sample_desc_from_uri
     (DidlObject ''DidlMusicAlbum'' ''1'' ''A:ALBUMS'' (Some ''Album A'')
        [DidlResource (Some ''x-sonos-http:track%3a123.mp3?sid=2'')
           ''sonos.com-http:*:audio/mpeg:*'']) =
     (Inr (DidlObject ''DidlMusicAlbum'' ''1'' ''A:ALBUMS'' (Some ''Album A'')
        [DidlResource (Some ''x-sonos-http:track%3a123.mp3?sid=2'')
           ''sonos.com-http:*:audio/mpeg:*'']),
      [(WARNING, upgrade_fail_message)])"
proof -
  have p: "startswith ''x-sonos-http:track%3a123.mp3?sid=2'' ''x-sonos-http''"
    by (simp add: startswith_def)
  have n: "DIDL_NAME_TO_QUALIFIED_MS_NAME ''DidlMusicAlbum'' = None"
    by (simp add: DIDL_NAME_TO_QUALIFIED_MS_NAME_def)
  have u: "cpython_urlparse ''x-sonos-http:track%3a123.mp3?sid=2'' =
     Inr (ParseResult ''x-sonos-http'' '''' ''track%3a123.mp3'' '''' ''sid=2'' '''')"
    by code_simp
  show ?thesis
    using p n u missing_entry_unchanged
      [of "DidlObject ''DidlMusicAlbum'' ''1'' ''A:ALBUMS'' (Some ''Album A'')
             [DidlResource (Some ''x-sonos-http:track%3a123.mp3?sid=2'')
                ''sonos.com-http:*:audio/mpeg:*'']"
          "DidlResource (Some ''x-sonos-http:track%3a123.mp3?sid=2'')
             ''sonos.com-http:*:audio/mpeg:*''"
          "[]" "''x-sonos-http:track%3a123.mp3?sid=2''"
          cpython_urlparse sample_get_class sample_desc_from_uri]
    by simp
qed

text \<open>
  Claim C8 as stated fails: the URI \<open>x-sonos-http://[\<close> starts with the prefix, the
  class name \<open>DidlMusicAlbum\<close> has no entry, and the call raises the \<open>ValueError\<close> with
  which \<open>urlparse\<close> rejects an unmatched bracket in the network location.
\<close>

theorem missing_entry_raises_counterexample:
  "startswith ''x-sonos-http://['' ''x-sonos-http'' \<and>
   DIDL_NAME_TO_QUALIFIED_MS_NAME ''DidlMusicAlbum'' = None \<and>
   attempt_datastructure_upgrade cpython_urlparse sample_get_class sample_desc_from_uri
     (DidlObject ''DidlMusicAlbum'' ''1'' ''A:ALBUMS'' (Some ''Album A'')
        [DidlResource (Some ''x-sonos-http://['') ''sonos.com-http:*:audio/mpeg:*'']) =
     (Inl (ValueError ''Invalid IPv6 URL''), [])"
proof -
  have u: "cpython_urlparse ''x-sonos-http://['' = Inl (ValueError ''Invalid IPv6 URL'')"
    by code_simp
  show ?thesis
    by (simp add: attempt_datastructure_upgrade_def u startswith_def
        DIDL_NAME_TO_QUALIFIED_MS_NAME_def)
qed

text \<open>
  Claim C2, as amended. A \<open>DidlMusicTrack\<close> titled \<open>Song A\<close> whose only resource has the
  URI \<open>x-sonos-http://abc123.mp3\<close> is upgraded to an object of the class \<open>get_class\<close>
  gives for \<open>MediaMetadataTrack\<close>, with the same resources, the title in its metadata,
  and the item identifier \<open>11111111\<close>: \<open>urlparse\<close> reads \<open>abc123.mp3\<close> as the network
  location, so the path the identifier is built from is empty.
\<close>

theorem music_track_upgrade:
  "get_class ''MediaMetadataTrack'' = Inr cls \<Longrightarrow>
   desc_from_uri ''x-sonos-http://abc123.mp3'' = Inr desc \<Longrightarrow>
   attempt_datastructure_upgrade cpython_urlparse get_class desc_from_uri
     (DidlObject ''DidlMusicTrack'' i p (Some ''Song A'')
        [DidlResource (Some ''x-sonos-http://abc123.mp3'') pinfo]) =
     (Inr (MusicServiceItem cls ''11111111'' desc
             [DidlResource (Some ''x-sonos-http://abc123.mp3'') pinfo]
             ''x-sonos-http://abc123.mp3'' [(''title'', ''Song A'')]),
      [(DEBUG, ''Item %s upgraded to %s'')])"
proof -
  assume g: "get_class ''MediaMetadataTrack'' = Inr cls"
    and d: "desc_from_uri ''x-sonos-http://abc123.mp3'' = Inr desc"
  have u: "cpython_urlparse ''x-sonos-http://abc123.mp3'' =
     Inr (ParseResult ''x-sonos-http'' ''abc123.mp3'' '''' '''' '''' '''')"
    by code_simp
  show ?thesis
    by (simp add: attempt_datastructure_upgrade_def u g d startswith_def rsplit1_def
        DIDL_NAME_TO_QUALIFIED_MS_NAME_def)
qed

text \<open>The upgrade in the sample configuration.\<close>

theorem music_track_upgrade_witness:
  "sample_get_class ''MediaMetadataTrack'' = Inr ''MSTrack'' \<and>
   sample_desc_from_uri ''x-sonos-http://abc123.mp3'' = Inr ''RINCON_AssociatedZPUDN'' \<and>
   attempt_datastructure_upgrade cpython_urlparse sample_get_class sample_desc_from_uri
     (DidlObject ''DidlMusicTrack'' ''1'' ''A:TRACKS'' (Some ''Song A'')
        [DidlResource (Some ''x-sonos-http://abc123.mp3'') ''sonos.com-http:*:audio/mpeg:*'']) =
     (Inr (MusicServiceItem ''MSTrack'' ''11111111'' ''RINCON_AssociatedZPUDN''
             [DidlResource (Some ''x-sonos-http://abc123.mp3'') ''sonos.com-http:*:audio/mpeg:*'']
             ''x-sonos-http://abc123.mp3'' [(''title'', ''Song A'')]),
      [(DEBUG, ''Item %s upgraded to %s'')])"
proof -
  have g: "sample_get_class ''MediaMetadataTrack'' = Inr ''MSTrack''"
    by (simp add: sample_get_class_def)
  have d: "sample_desc_from_uri ''x-sonos-http://abc123.mp3'' = Inr ''RINCON_AssociatedZPUDN''"
    by (simp add: sample_desc_from_uri_def)
  show ?thesis
    using g d music_track_upgrade
      [of sample_get_class "''MSTrack''" sample_desc_from_uri "''RINCON_AssociatedZPUDN''"
          "''1''" "''A:TRACKS''" "''sonos.com-http:*:audio/mpeg:*''"]
    by simp
qed

text \<open>
  Claim C2 as stated fails: the identifier of the upgraded sample track is \<open>11111111\<close>,
  not \<open>11111111/abc123\<close>.
\<close>

theorem music_track_identifier_counterexample:
  "item_id (projr (fst (attempt_datastructure_upgrade cpython_urlparse sample_get_class
      sample_desc_from_uri sample_track))) = ''11111111'' \<and>
   item_id (projr (fst (attempt_datastructure_upgrade cpython_urlparse sample_get_class
      sample_desc_from_uri sample_track))) \<noteq> ''11111111/abc123''"
proof -
  have u: "cpython_urlparse ''x-sonos-http://abc123.mp3'' =
     Inr (ParseResult ''x-sonos-http'' ''abc123.mp3'' '''' '''' '''' '''')"
    by code_simp
  show ?thesis
    by (simp add: attempt_datastructure_upgrade_def u startswith_def rsplit1_def
        DIDL_NAME_TO_QUALIFIED_MS_NAME_def sample_track_def sample_get_class_def
        sample_desc_from_uri_def)
qed

text \<open>
  The identifier of every upgraded object: the constant \<open>11111111\<close> followed by the path
  \<open>urlparse\<close> gives for the URI, up to its last dot.
\<close>

lemma upgraded_item_identifier:
  "resources didl_item = r # rs \<Longrightarrow> uri r = Some u \<Longrightarrow> urlparse u = Inr parsed \<Longrightarrow>
   attempt_datastructure_upgrade urlparse get_class desc_from_uri didl_item =
     (Inr (MusicServiceItem c i d rs' u' md), l) \<Longrightarrow>
   didl_item \<noteq> MusicServiceItem c i d rs' u' md \<Longrightarrow>
   i = ''11111111'' @ hd (rsplit1 (path parsed) (CHR ''.'')) \<and> rs' = r # rs \<and> u' = u"
  by (auto simp: attempt_datastructure_upgrade_def Let_def
      split: if_splits option.splits sum.splits exn.splits)

section \<open>The parser\<close>





text \<open>
  Claim C7. For an object a registered class has built, the upgrade loop is the left
  fold of \<open>upgrade_step\<close> over \<open>_UPGRADE_FUNCTIONS\<close> in list order, started at that
  object: each function is applied once, to what the function before it returned, and
  an exception ends the fold and the parse. What the fold returns is what the loop of
  the parser appends to its list. For functions that neither raise nor log, the fold is
  the plain left fold of application. A function registered later stands later in the
  list, so it runs on the result of those registered before it.
\<close>

theorem upgrade_chain_left_fold:
  assumes "endswith (tag elt) ''item'' \<or> endswith (tag elt) ''container''"
    and "findtext elt (ns_tag m ''upnp'' ''class'') = Some raw"
    and "resolve m raw = Inr cls"
    and "cls elt = Inr item0"
  shows "apply_upgrades (UPGRADE_FUNCTIONS m) item0 =
       foldl upgrade_step (Inr item0, []) (UPGRADE_FUNCTIONS m) \<and>
     from_didl_children m (elt # rest) items =
       (case foldl upgrade_step (Inr item0, []) (UPGRADE_FUNCTIONS m) of
          (Inl e, l) \<Rightarrow> (Inl e, l)
        | (Inr item', l) \<Rightarrow>
            (case from_didl_children m rest (items @ [item']) of (r, l') \<Rightarrow> (r, l @ l'))) \<and>
     apply_upgrades (map (\<lambda>g x. (Inr (g x), [])) gs) item0 =
       (Inr (foldl (\<lambda>x g. g x) item0 gs), []) \<and>
     UPGRADE_FUNCTIONS (register_upgrade u m) = UPGRADE_FUNCTIONS m @ [u] \<and>
     apply_upgrades (UPGRADE_FUNCTIONS (register_upgrade u m)) item0 =
       (case apply_upgrades (UPGRADE_FUNCTIONS m) item0 of
          (Inl e, l) \<Rightarrow> (Inl e, l)
        | (Inr x, l) \<Rightarrow> (case u x of (r, l') \<Rightarrow> (r, l @ l')))"
proof -
  have a: "apply_upgrades (UPGRADE_FUNCTIONS m) item0 =
       foldl upgrade_step (Inr item0, []) (UPGRADE_FUNCTIONS m)"
    by (rule apply_upgrades_fold)
  have e: "from_didl_element m elt = apply_upgrades (UPGRADE_FUNCTIONS m) item0"
    using assms by (simp add: from_didl_element_def construct_item_def)
  have b: "from_didl_children m (elt # rest) items =
       (case foldl upgrade_step (Inr item0, []) (UPGRADE_FUNCTIONS m) of
          (Inl e, l) \<Rightarrow> (Inl e, l)
        | (Inr item', l) \<Rightarrow>
            (case from_didl_children m rest (items @ [item']) of (r, l') \<Rightarrow> (r, l @ l')))"
    by (simp add: e a)
  have c: "apply_upgrades (map (\<lambda>g x. (Inr (g x), [])) gs) item0 =
       (Inr (foldl (\<lambda>x g. g x) item0 gs), [])"
    by (rule apply_upgrades_pure)
  have d: "UPGRADE_FUNCTIONS (register_upgrade u m) = UPGRADE_FUNCTIONS m @ [u]"
    by (simp add: register_upgrade_def)
  have f: "apply_upgrades (UPGRADE_FUNCTIONS (register_upgrade u m)) item0 =
       (case apply_upgrades (UPGRADE_FUNCTIONS m) item0 of
          (Inl e, l) \<Rightarrow> (Inl e, l)
        | (Inr x, l) \<Rightarrow> (case u x of (r, l') \<Rightarrow> (r, l @ l')))"
    by (simp add: d apply_upgrades_append split: prod.splits sum.splits)
  show ?thesis using a b c d f by blast
qed

text \<open>The first child of the sample document of two objects: the track the sample class
  builds from it is upgraded by the one registered function, and the upgraded object
  is the one in the list.\<close>

theorem upgrade_chain_left_fold_witness:
  "endswith (tag (hd (children doc_tracks_root))) ''item'' \<and>
   findtext (hd (children doc_tracks_root)) (ns_tag sample_module ''upnp'' ''class'') =
     Some ''object.item.audioItem.musicTrack.#vendorX'' \<and>
   resolve sample_module ''object.item.audioItem.musicTrack.#vendorX'' =
     Inr (sample_from_element ''DidlMusicTrack'' ''item'' ''object.item.audioItem.musicTrack'') \<and>
   sample_from_element ''DidlMusicTrack'' ''item'' ''object.item.audioItem.musicTrack''
     (hd (children doc_tracks_root)) = Inr sample_track \<and>
   apply_upgrades (UPGRADE_FUNCTIONS sample_module) sample_track =
     foldl upgrade_step (Inr sample_track, []) (UPGRADE_FUNCTIONS sample_module) \<and>
   foldl upgrade_step (Inr sample_track, []) (UPGRADE_FUNCTIONS sample_module) =
     (Inr (MusicServiceItem ''MSTrack'' ''11111111'' ''RINCON_AssociatedZPUDN''
            [DidlResource (Some ''x-sonos-http://abc123.mp3'') ''sonos.com-http:*:audio/mpeg:*'']
            ''x-sonos-http://abc123.mp3'' [(''title'', ''Song A'')]),
      [(DEBUG, ''Item %s upgraded to %s'')]) \<and>
   from_didl_children sample_module [hd (children doc_tracks_root)] [] =
     (Inr [MusicServiceItem ''MSTrack'' ''11111111'' ''RINCON_AssociatedZPUDN''
            [DidlResource (Some ''x-sonos-http://abc123.mp3'') ''sonos.com-http:*:audio/mpeg:*'']
            ''x-sonos-http://abc123.mp3'' [(''title'', ''Song A'')]],
      [(DEBUG, ''Item %s upgraded to %s'')])"
proof -
  have h1: "endswith (tag (hd (children doc_tracks_root))) ''item''"
    by code_simp
  have h2: "findtext (hd (children doc_tracks_root)) (ns_tag sample_module ''upnp'' ''class'') =
     Some ''object.item.audioItem.musicTrack.#vendorX''"
    by code_simp
  have h3: "resolve sample_module ''object.item.audioItem.musicTrack.#vendorX'' =
     Inr (sample_from_element ''DidlMusicTrack'' ''item'' ''object.item.audioItem.musicTrack'')"
    by (simp add: resolve_def strip_samples lookup_class_def sample_class_track)
  have h4: "sample_from_element ''DidlMusicTrack'' ''item'' ''object.item.audioItem.musicTrack''
     (hd (children doc_tracks_root)) = Inr sample_track"
    by code_simp
  have v: "foldl upgrade_step (Inr sample_track, []) (UPGRADE_FUNCTIONS sample_module) =
     (Inr (MusicServiceItem ''MSTrack'' ''11111111'' ''RINCON_AssociatedZPUDN''
            [DidlResource (Some ''x-sonos-http://abc123.mp3'') ''sonos.com-http:*:audio/mpeg:*'']
            ''x-sonos-http://abc123.mp3'' [(''title'', ''Song A'')]),
      [(DEBUG, ''Item %s upgraded to %s'')])"
    by code_simp
  from upgrade_chain_left_fold [OF disjI1 [OF h1] h2 h3 h4, of "[]" "[]" "[]"
      "attempt_datastructure_upgrade cpython_urlparse sample_get_class sample_desc_from_uri"]
  have t: "apply_upgrades (UPGRADE_FUNCTIONS sample_module) sample_track =
       foldl upgrade_step (Inr sample_track, []) (UPGRADE_FUNCTIONS sample_module)"
    and w: "from_didl_children sample_module [hd (children doc_tracks_root)] [] =
       (case foldl upgrade_step (Inr sample_track, []) (UPGRADE_FUNCTIONS sample_module) of
          (Inl e, l) \<Rightarrow> (Inl e, l)
        | (Inr item', l) \<Rightarrow>
            (case from_didl_children sample_module [] ([] @ [item']) of (r, l') \<Rightarrow> (r, l @ l')))"
    by blast+
  from w have "from_didl_children sample_module [hd (children doc_tracks_root)] [] =
     (Inr [MusicServiceItem ''MSTrack'' ''11111111'' ''RINCON_AssociatedZPUDN''
            [DidlResource (Some ''x-sonos-http://abc123.mp3'') ''sonos.com-http:*:audio/mpeg:*'']
            ''x-sonos-http://abc123.mp3'' [(''title'', ''Song A'')]],
      [(DEBUG, ''Item %s upgraded to %s'')])"
    by (simp add: v)
  then show ?thesis using h1 h2 h3 h4 t v by blast
qed

text \<open>
  Claim C1, as amended. When the parser reaches a child of the root whose tag is \<open>desc\<close>
  (plain or qualified by a namespace, the tag ends in \<open>desc\<close>), it raises
  \<open>DIDLMetadataError\<close> with the message \<open>Illegal child of DIDL element\<close> and the tag: the
  parse ends there, it returns no list, and the children after it are not looked at.
  The comment on lines 63 to 66 says so: such elements are treated as illegal.
\<close>

theorem desc_child_aborts:
  assumes "fromstring m string = Inr root"
    and "children root = pre @ elt # post"
    and "from_didl_children m pre [] = (Inr items, l)"
    and "endswith (tag elt) ''desc''"
  shows "from_didl_string m string =
     (Inl (DIDLMetadataError (''Illegal child of DIDL element: <'' @ tag elt @ ''>'')), l)"
proof -
  from assms(4) have "\<not> endswith (tag elt) ''item'' \<and> \<not> endswith (tag elt) ''container''"
    using suffix_desc_not_item [of "tag elt"] by (simp add: endswith_def)
  then have "from_didl_element m elt =
     (Inl (DIDLMetadataError (''Illegal child of DIDL element: <'' @ tag elt @ ''>'')), [])"
    by (simp add: from_didl_element_def)
  with from_didl_string_at [OF assms(1-3)] show ?thesis by simp
qed

text \<open>The sample document that starts with a \<open>desc\<close> element.\<close>

theorem desc_child_aborts_witness:
  "fromstring sample_module doc_desc = Inr doc_desc_root \<and>
   children doc_desc_root = [] @ hd (children doc_desc_root) # tl (children doc_desc_root) \<and>
   from_didl_children sample_module [] [] = (Inr [], []) \<and>
   endswith (tag (hd (children doc_desc_root))) ''desc'' \<and>
   from_didl_string sample_module doc_desc =
     (Inl (DIDLMetadataError
        (''Illegal child of DIDL element: <'' @ tag (hd (children doc_desc_root)) @ ''>'')), [])"
proof -
  have f: "fromstring sample_module doc_desc = Inr doc_desc_root"
    by (rule sample_fromstring_docs)
  have c: "children doc_desc_root =
     [] @ hd (children doc_desc_root) # tl (children doc_desc_root)"
    by (simp add: doc_desc_root_def)
  have p: "from_didl_children sample_module [] [] = (Inr [], [])"
    by simp
  have d: "endswith (tag (hd (children doc_desc_root))) ''desc''"
    by code_simp
  from desc_child_aborts [OF f c p d] f c p d show ?thesis by blast
qed

text \<open>
  Claim C1 as stated fails: the first child of this document has the tag \<open>desc\<close>, a
  valid track follows it, and the parse returns the error, not a list.
\<close>

theorem desc_child_counterexample:
  "tag (hd (children doc_desc_root)) = ''{urn:schemas-upnp-org:metadata-1-0/DIDL-Lite/}desc'' \<and>
   from_didl_string sample_module doc_desc =
     (Inl (DIDLMetadataError
        ''Illegal child of DIDL element: <{urn:schemas-upnp-org:metadata-1-0/DIDL-Lite/}desc>''),
      [])"
  by code_simp

text \<open>
  Claim C5, as amended. When the parser reaches a child of the root whose tag ends
  neither in \<open>item\<close> nor in \<open>container\<close> (\<open>foo\<close>, and \<open>desc\<close> as well), the whole parse
  fails with \<open>DIDLMetadataError\<close>, its message naming the tag; no list is returned,
  however many valid children stand before or after it. The test is on the end of the
  tag: a child whose tag only ends in \<open>item\<close> or \<open>container\<close> is not rejected.
\<close>

theorem illegal_child_aborts:
  assumes "fromstring m string = Inr root"
    and "children root = pre @ elt # post"
    and "from_didl_children m pre [] = (Inr items, l)"
    and "\<not> endswith (tag elt) ''item''"
    and "\<not> endswith (tag elt) ''container''"
  shows "from_didl_string m string =
     (Inl (DIDLMetadataError (''Illegal child of DIDL element: <'' @ tag elt @ ''>'')), l)"
proof -
  from assms(4,5) have "from_didl_element m elt =
     (Inl (DIDLMetadataError (''Illegal child of DIDL element: <'' @ tag elt @ ''>'')), [])"
    by (simp add: from_didl_element_def)
  with from_didl_string_at [OF assms(1-3)] show ?thesis by simp
qed

text \<open>The sample document with a \<open>foo\<close> element between two valid tracks.\<close>

theorem illegal_child_aborts_witness:
  "fromstring sample_module doc_foo = Inr doc_foo_root \<and>
   children doc_foo_root =
     take 1 (children doc_foo_root) @ children doc_foo_root ! 1 # drop 2 (children doc_foo_root) \<and>
   from_didl_children sample_module (take 1 (children doc_foo_root)) [] =
     (Inr [DidlObject ''DidlMusicTrack'' ''1'' ''A:TRACKS'' (Some ''Song A'')
             [DidlResource (Some ''x-file-cifs://nas/a.mp3'') ''x-file-cifs:*:audio/mpeg:*'']],
      [(DEBUG, ''Upgrade not necessary'')]) \<and>
   \<not> endswith (tag (children doc_foo_root ! 1)) ''item'' \<and>
   \<not> endswith (tag (children doc_foo_root ! 1)) ''container'' \<and>
   from_didl_string sample_module doc_foo =
     (Inl (DIDLMetadataError
        (''Illegal child of DIDL element: <'' @ tag (children doc_foo_root ! 1) @ ''>'')),
      [(DEBUG, ''Upgrade not necessary'')])"
proof -
  have f: "fromstring sample_module doc_foo = Inr doc_foo_root"
    by (rule sample_fromstring_docs)
  have c: "children doc_foo_root =
     take 1 (children doc_foo_root) @ children doc_foo_root ! 1 # drop 2 (children doc_foo_root)"
    by (simp add: doc_foo_root_def)
  have p: "from_didl_children sample_module (take 1 (children doc_foo_root)) [] =
     (Inr [DidlObject ''DidlMusicTrack'' ''1'' ''A:TRACKS'' (Some ''Song A'')
             [DidlResource (Some ''x-file-cifs://nas/a.mp3'') ''x-file-cifs:*:audio/mpeg:*'']],
      [(DEBUG, ''Upgrade not necessary'')])"
    by code_simp
  have i: "\<not> endswith (tag (children doc_foo_root ! 1)) ''item''"
    by code_simp
  have k: "\<not> endswith (tag (children doc_foo_root ! 1)) ''container''"
    by code_simp
  from illegal_child_aborts [OF f c p i k] f c p i k show ?thesis by blast
qed

text \<open>
  Claim C5 as stated fails: the only child of this document has the tag \<open>notanitem\<close>,
  which is none of \<open>item\<close>, \<open>container\<close> and \<open>desc\<close>, and the parse returns the track
  built from it.
\<close>

theorem illegal_child_counterexample:
  "tag (hd (children doc_notanitem_root)) =
     ''{urn:schemas-upnp-org:metadata-1-0/DIDL-Lite/}notanitem'' \<and>
   fst (from_didl_string sample_module doc_notanitem) =
     Inr [DidlObject ''DidlMusicTrack'' ''1'' ''A:TRACKS'' (Some ''Song A'')
            [DidlResource (Some ''x-file-cifs://nas/a.mp3'') ''x-file-cifs:*:audio/mpeg:*'']]"
  by code_simp

text \<open>
  Claim C10. The parser takes a child of the root as an item or a container exactly
  when its tag ends in \<open>item\<close> or in \<open>container\<close>: then the loop body builds its object
  (class lookup, \<open>from_element\<close>, upgrades), otherwise it raises the error of an illegal
  child. In a document, for a child the loop reaches, the result of the parse is then
  that of building the object and going on with the children after it, or that error;
  and a parse that succeeds has met no child of another kind. The test is on the end of
  the tag, so a tag qualified by a namespace passes, and so does \<open>notanitem\<close>; \<open>desc\<close> and
  \<open>foo\<close> do not.
\<close>

theorem child_classified_by_suffix:
  "from_didl_element m elt =
     (if endswith (tag elt) ''item'' \<or> endswith (tag elt) ''container''
      then construct_item m elt
      else (Inl (DIDLMetadataError (''Illegal child of DIDL element: <'' @ tag elt @ ''>'')),
            [])) \<and>
   (\<forall>string root pre post items l.
      fromstring m string = Inr root \<and> children root = pre @ elt # post \<and>
      from_didl_children m pre [] = (Inr items, l) \<longrightarrow>
      from_didl_string m string =
        (if endswith (tag elt) ''item'' \<or> endswith (tag elt) ''container''
         then (case construct_item m elt of
                 (Inl e, l1) \<Rightarrow> (Inl e, l @ l1)
               | (Inr it, l1) \<Rightarrow>
                   (case from_didl_children m post (items @ [it]) of
                      (Inl e, l2) \<Rightarrow> (Inl e, l @ l1 @ l2)
                    | (Inr its, l2) \<Rightarrow> (Inr its, l @ l1 @ l2 @ [(ERROR, created_message)])))
         else (Inl (DIDLMetadataError (''Illegal child of DIDL element: <'' @ tag elt @ ''>'')),
               l))) \<and>
   (\<forall>string root items.
      fromstring m string = Inr root \<and> fst (from_didl_string m string) = Inr items \<and>
      elt \<in> set (children root) \<longrightarrow>
      endswith (tag elt) ''item'' \<or> endswith (tag elt) ''container'') \<and>
   endswith ''{urn:schemas-upnp-org:metadata-1-0/DIDL-Lite/}item'' ''item'' \<and>
   endswith ''{urn:schemas-upnp-org:metadata-1-0/DIDL-Lite/}container'' ''container'' \<and>
   endswith ''notanitem'' ''item'' \<and>
   \<not> endswith ''desc'' ''item'' \<and> \<not> endswith ''desc'' ''container'' \<and>
   \<not> endswith ''foo'' ''item'' \<and> \<not> endswith ''foo'' ''container''"
proof -
  have e: "from_didl_element m elt =
     (if endswith (tag elt) ''item'' \<or> endswith (tag elt) ''container''
      then construct_item m elt
      else (Inl (DIDLMetadataError (''Illegal child of DIDL element: <'' @ tag elt @ ''>'')),
            []))"
    by (simp add: from_didl_element_def)
  have a: "from_didl_string m string =
     (if endswith (tag elt) ''item'' \<or> endswith (tag elt) ''container''
      then (case construct_item m elt of
              (Inl e, l1) \<Rightarrow> (Inl e, l @ l1)
            | (Inr it, l1) \<Rightarrow>
                (case from_didl_children m post (items @ [it]) of
                   (Inl e, l2) \<Rightarrow> (Inl e, l @ l1 @ l2)
                 | (Inr its, l2) \<Rightarrow> (Inr its, l @ l1 @ l2 @ [(ERROR, created_message)])))
      else (Inl (DIDLMetadataError (''Illegal child of DIDL element: <'' @ tag elt @ ''>'')),
            l))"
    if "fromstring m string = Inr root" and "children root = pre @ elt # post"
      and "from_didl_children m pre [] = (Inr items, l)"
    for string root pre post items l
    using from_didl_string_at [OF that] by (simp add: from_didl_element_def)
  have s: "endswith (tag elt) ''item'' \<or> endswith (tag elt) ''container''"
    if f: "fromstring m string = Inr root" and r: "fst (from_didl_string m string) = Inr items"
      and i: "elt \<in> set (children root)"
    for string root items
  proof -
    from f r obtain l where "from_didl_children m (children root) [] = (Inr items, l)"
      by (auto simp: from_didl_string_def split: prod.splits sum.splits)
    from from_didl_children_success [OF this]
    have "list_all2 (\<lambda>elt it. fst (from_didl_element m elt) = Inr it) (children root) items"
      by simp
    with i obtain it where "fst (from_didl_element m elt) = Inr it"
      by (auto simp: list_all2_conv_all_nth in_set_conv_nth)
    from element_success [OF this] show ?thesis by simp
  qed
  have b: "endswith ''{urn:schemas-upnp-org:metadata-1-0/DIDL-Lite/}item'' ''item''"
    "endswith ''{urn:schemas-upnp-org:metadata-1-0/DIDL-Lite/}container'' ''container''"
    "endswith ''notanitem'' ''item''"
    "\<not> endswith ''desc'' ''item''" "\<not> endswith ''desc'' ''container''"
    "\<not> endswith ''foo'' ''item''" "\<not> endswith ''foo'' ''container''"
    by code_simp+
  show ?thesis using e a s b by blast
qed

text \<open>Both branches in the sample configuration: the \<open>notanitem\<close> element is built into
  a track, the \<open>foo\<close> element ends the parse.\<close>

theorem child_classified_by_suffix_witness:
  "fromstring sample_module doc_notanitem = Inr doc_notanitem_root \<and>
   children doc_notanitem_root = [] @ hd (children doc_notanitem_root) # [] \<and>
   endswith (tag (hd (children doc_notanitem_root))) ''item'' \<and>
   from_didl_string sample_module doc_notanitem =
     (Inr [DidlObject ''DidlMusicTrack'' ''1'' ''A:TRACKS'' (Some ''Song A'')
             [DidlResource (Some ''x-file-cifs://nas/a.mp3'') ''x-file-cifs:*:audio/mpeg:*'']],
      [(DEBUG, ''Upgrade not necessary''), (ERROR, created_message)]) \<and>
   fromstring sample_module doc_foo = Inr doc_foo_root \<and>
   children doc_foo_root =
     take 1 (children doc_foo_root) @ children doc_foo_root ! 1 # drop 2 (children doc_foo_root) \<and>
   from_didl_children sample_module (take 1 (children doc_foo_root)) [] =
     (Inr [DidlObject ''DidlMusicTrack'' ''1'' ''A:TRACKS'' (Some ''Song A'')
             [DidlResource (Some ''x-file-cifs://nas/a.mp3'') ''x-file-cifs:*:audio/mpeg:*'']],
      [(DEBUG, ''Upgrade not necessary'')]) \<and>
   \<not> (endswith (tag (children doc_foo_root ! 1)) ''item'' \<or>
      endswith (tag (children doc_foo_root ! 1)) ''container'') \<and>
   from_didl_string sample_module doc_foo =
     (Inl (DIDLMetadataError
        (''Illegal child of DIDL element: <'' @ tag (children doc_foo_root ! 1) @ ''>'')),
      [(DEBUG, ''Upgrade not necessary'')])"
proof -
  have f1: "fromstring sample_module doc_notanitem = Inr doc_notanitem_root"
    by (rule sample_fromstring_docs)
  have c1: "children doc_notanitem_root = [] @ hd (children doc_notanitem_root) # []"
    by (simp add: doc_notanitem_root_def)
  have p1: "from_didl_children sample_module [] [] = (Inr [], [])"
    by simp
  have s1: "endswith (tag (hd (children doc_notanitem_root))) ''item''"
    by code_simp
  have k1: "construct_item sample_module (hd (children doc_notanitem_root)) =
     (Inr (DidlObject ''DidlMusicTrack'' ''1'' ''A:TRACKS'' (Some ''Song A'')
             [DidlResource (Some ''x-file-cifs://nas/a.mp3'') ''x-file-cifs:*:audio/mpeg:*'']),
      [(DEBUG, ''Upgrade not necessary'')])"
    by code_simp
  from child_classified_by_suffix [of sample_module "hd (children doc_notanitem_root)"] f1 c1 p1
  have "from_didl_string sample_module doc_notanitem =
        (if endswith (tag (hd (children doc_notanitem_root))) ''item'' \<or>
            endswith (tag (hd (children doc_notanitem_root))) ''container''
         then (case construct_item sample_module (hd (children doc_notanitem_root)) of
                 (Inl e, l1) \<Rightarrow> (Inl e, [] @ l1)
               | (Inr it, l1) \<Rightarrow>
                   (case from_didl_children sample_module [] ([] @ [it]) of
                      (Inl e, l2) \<Rightarrow> (Inl e, [] @ l1 @ l2)
                    | (Inr its, l2) \<Rightarrow> (Inr its, [] @ l1 @ l2 @ [(ERROR, created_message)])))
         else (Inl (DIDLMetadataError (''Illegal child of DIDL element: <'' @
                  tag (hd (children doc_notanitem_root)) @ ''>'')),
               []))"
    by blast
  then have r1: "from_didl_string sample_module doc_notanitem =
     (Inr [DidlObject ''DidlMusicTrack'' ''1'' ''A:TRACKS'' (Some ''Song A'')
             [DidlResource (Some ''x-file-cifs://nas/a.mp3'') ''x-file-cifs:*:audio/mpeg:*'']],
      [(DEBUG, ''Upgrade not necessary''), (ERROR, created_message)])"
    using s1 by (simp add: k1)
  have f2: "fromstring sample_module doc_foo = Inr doc_foo_root"
    by (rule sample_fromstring_docs)
  have c2: "children doc_foo_root =
     take 1 (children doc_foo_root) @ children doc_foo_root ! 1 # drop 2 (children doc_foo_root)"
    by (simp add: doc_foo_root_def)
  have p2: "from_didl_children sample_module (take 1 (children doc_foo_root)) [] =
     (Inr [DidlObject ''DidlMusicTrack'' ''1'' ''A:TRACKS'' (Some ''Song A'')
             [DidlResource (Some ''x-file-cifs://nas/a.mp3'') ''x-file-cifs:*:audio/mpeg:*'']],
      [(DEBUG, ''Upgrade not necessary'')])"
    by code_simp
  have s2: "\<not> (endswith (tag (children doc_foo_root ! 1)) ''item'' \<or>
      endswith (tag (children doc_foo_root ! 1)) ''container'')"
    by code_simp
  from child_classified_by_suffix [of sample_module "children doc_foo_root ! 1"] f2 c2 p2
  have "from_didl_string sample_module doc_foo =
        (if endswith (tag (children doc_foo_root ! 1)) ''item'' \<or>
            endswith (tag (children doc_foo_root ! 1)) ''container''
         then (case construct_item sample_module (children doc_foo_root ! 1) of
                 (Inl e, l1) \<Rightarrow> (Inl e, [(DEBUG, ''Upgrade not necessary'')] @ l1)
               | (Inr it, l1) \<Rightarrow>
                   (case from_didl_children sample_module (drop 2 (children doc_foo_root))
                           ([DidlObject ''DidlMusicTrack'' ''1'' ''A:TRACKS'' (Some ''Song A'')
                              [DidlResource (Some ''x-file-cifs://nas/a.mp3'')
                                 ''x-file-cifs:*:audio/mpeg:*'']] @ [it]) of
                      (Inl e, l2) \<Rightarrow> (Inl e, [(DEBUG, ''Upgrade not necessary'')] @ l1 @ l2)
                    | (Inr its, l2) \<Rightarrow>
                        (Inr its, [(DEBUG, ''Upgrade not necessary'')] @ l1 @ l2 @
                           [(ERROR, created_message)])))
         else (Inl (DIDLMetadataError (''Illegal child of DIDL element: <'' @
                  tag (children doc_foo_root ! 1) @ ''>'')),
               [(DEBUG, ''Upgrade not necessary'')]))"
    by blast
  then have r2: "from_didl_string sample_module doc_foo =
     (Inl (DIDLMetadataError
        (''Illegal child of DIDL element: <'' @ tag (children doc_foo_root ! 1) @ ''>'')),
      [(DEBUG, ''Upgrade not necessary'')])"
    using s2 by simp
  show ?thesis using f1 c1 s1 r1 f2 c2 p2 s2 r2 by blast
qed

text \<open>
  Claim C4, as amended. A document with an item or container whose class identifier,
  cut at its first \<open>.#\<close>, is not a key of \<open>_DIDL_CLASS_TO_CLASS\<close> is never parsed into a
  list: the parse fails. When every child before that element parses, the failure is
  the \<open>DIDLMetadataError\<close> with the message \<open>Unknown UPnP class\<close> and the identifier as
  cut. When a child before it fails, the parse has ended there, with that child's error.
\<close>

theorem unknown_class_aborts:
  assumes "fromstring m string = Inr root"
    and "elt \<in> set (children root)"
    and "endswith (tag elt) ''item'' \<or> endswith (tag elt) ''container''"
    and "findtext elt (ns_tag m ''upnp'' ''class'') = Some raw"
    and "DIDL_CLASS_TO_CLASS m (strip_unofficial_subclass raw) = None"
  shows "(\<exists>e. fst (from_didl_string m string) = Inl e) \<and>
     (\<forall>pre post items l.
        children root = pre @ elt # post \<and> from_didl_children m pre [] = (Inr items, l) \<longrightarrow>
        from_didl_string m string =
          (Inl (DIDLMetadataError (''Unknown UPnP class: '' @ strip_unofficial_subclass raw)),
           l))"
proof -
  have e: "from_didl_element m elt =
     (Inl (DIDLMetadataError (''Unknown UPnP class: '' @ strip_unofficial_subclass raw)), [])"
    using assms(3-5)
    by (simp add: from_didl_element_def construct_item_def resolve_def lookup_class_def)
  then have "fst (from_didl_element m elt) =
     Inl (DIDLMetadataError (''Unknown UPnP class: '' @ strip_unofficial_subclass raw))"
    by simp
  from from_didl_children_failure [OF assms(2) this, of "[]"]
  obtain e0 where "fst (from_didl_children m (children root) []) = Inl e0" by blast
  then have a: "\<exists>e. fst (from_didl_string m string) = Inl e"
    using assms(1) by (auto simp: from_didl_string_def split: prod.splits sum.splits)
  have b: "from_didl_string m string =
          (Inl (DIDLMetadataError (''Unknown UPnP class: '' @ strip_unofficial_subclass raw)),
           l)"
    if "children root = pre @ elt # post" and "from_didl_children m pre [] = (Inr items, l)"
    for pre post items l
    using from_didl_string_at [OF assms(1) that] by (simp add: e)
  show ?thesis using a b by blast
qed

text \<open>The sample document whose second track has an unregistered class with a vendor's
  subclass.\<close>

theorem unknown_class_aborts_witness:
  "fromstring sample_module doc_bogus = Inr doc_bogus_root \<and>
   children doc_bogus_root ! 1 \<in> set (children doc_bogus_root) \<and>
   endswith (tag (children doc_bogus_root ! 1)) ''item'' \<and>
   findtext (children doc_bogus_root ! 1) (ns_tag sample_module ''upnp'' ''class'') =
     Some ''object.item.audioItem.bogus.#vendorX'' \<and>
   DIDL_CLASS_TO_CLASS sample_module
     (strip_unofficial_subclass ''object.item.audioItem.bogus.#vendorX'') = None \<and>
   children doc_bogus_root =
     take 1 (children doc_bogus_root) @ children doc_bogus_root ! 1 #
       drop 2 (children doc_bogus_root) \<and>
   from_didl_children sample_module (take 1 (children doc_bogus_root)) [] =
     (Inr [DidlObject ''DidlMusicTrack'' ''1'' ''A:TRACKS'' (Some ''Song A'')
             [DidlResource (Some ''x-file-cifs://nas/a.mp3'') ''x-file-cifs:*:audio/mpeg:*'']],
      [(DEBUG, ''Upgrade not necessary'')]) \<and>
   from_didl_string sample_module doc_bogus =
     (Inl (DIDLMetadataError ''Unknown UPnP class: object.item.audioItem.bogus''),
      [(DEBUG, ''Upgrade not necessary'')])"
proof -
  have f: "fromstring sample_module doc_bogus = Inr doc_bogus_root"
    by (rule sample_fromstring_docs)
  have i: "children doc_bogus_root ! 1 \<in> set (children doc_bogus_root)"
    by (simp add: sample_children_lengths)
  have t: "endswith (tag (children doc_bogus_root ! 1)) ''item''"
    by code_simp
  have c: "findtext (children doc_bogus_root ! 1) (ns_tag sample_module ''upnp'' ''class'') =
     Some ''object.item.audioItem.bogus.#vendorX''"
    by code_simp
  have n: "DIDL_CLASS_TO_CLASS sample_module
     (strip_unofficial_subclass ''object.item.audioItem.bogus.#vendorX'') = None"
    by (simp add: strip_samples sample_class_unknown)
  have s: "children doc_bogus_root =
     take 1 (children doc_bogus_root) @ children doc_bogus_root ! 1 #
       drop 2 (children doc_bogus_root)"
    by (simp add: doc_bogus_root_def)
  have p: "from_didl_children sample_module (take 1 (children doc_bogus_root)) [] =
     (Inr [DidlObject ''DidlMusicTrack'' ''1'' ''A:TRACKS'' (Some ''Song A'')
             [DidlResource (Some ''x-file-cifs://nas/a.mp3'') ''x-file-cifs:*:audio/mpeg:*'']],
      [(DEBUG, ''Upgrade not necessary'')])"
    by code_simp
  from unknown_class_aborts [OF f i disjI1 [OF t] c n] s p
  have "from_didl_string sample_module doc_bogus =
     (Inl (DIDLMetadataError (''Unknown UPnP class: '' @
         strip_unofficial_subclass ''object.item.audioItem.bogus.#vendorX'')),
      [(DEBUG, ''Upgrade not necessary'')])"
    by blast
  then have "from_didl_string sample_module doc_bogus =
     (Inl (DIDLMetadataError ''Unknown UPnP class: object.item.audioItem.bogus''),
      [(DEBUG, ''Upgrade not necessary'')])"
    by (simp add: strip_samples)
  then show ?thesis using f i t c n s p by blast
qed

text \<open>
  Claim C4 as stated fails: the second child of this document is an item whose class
  \<open>object.item.audioItem.bogus\<close> is not registered, and the parse fails with the error
  of the \<open>foo\<close> element before it, which does not carry that identifier.
\<close>

theorem unknown_class_counterexample:
  "children doc_foo_bogus_root ! 1 \<in> set (children doc_foo_bogus_root) \<and>
   endswith (tag (children doc_foo_bogus_root ! 1)) ''item'' \<and>
   findtext (children doc_foo_bogus_root ! 1) (ns_tag sample_module ''upnp'' ''class'') =
     Some ''object.item.audioItem.bogus'' \<and>
   DIDL_CLASS_TO_CLASS sample_module
     (strip_unofficial_subclass ''object.item.audioItem.bogus'') = None \<and>
   from_didl_string sample_module doc_foo_bogus =
     (Inl (DIDLMetadataError
        ''Illegal child of DIDL element: <{urn:schemas-upnp-org:metadata-1-0/DIDL-Lite/}foo>''),
      [])"
proof -
  have i: "children doc_foo_bogus_root ! 1 \<in> set (children doc_foo_bogus_root)"
    by (simp add: sample_children_lengths)
  have t: "endswith (tag (children doc_foo_bogus_root ! 1)) ''item''"
    by code_simp
  have c: "findtext (children doc_foo_bogus_root ! 1) (ns_tag sample_module ''upnp'' ''class'') =
     Some ''object.item.audioItem.bogus''"
    by code_simp
  have n: "DIDL_CLASS_TO_CLASS sample_module
     (strip_unofficial_subclass ''object.item.audioItem.bogus'') = None"
    by (simp add: strip_samples sample_class_unknown)
  have r: "from_didl_string sample_module doc_foo_bogus =
     (Inl (DIDLMetadataError
        ''Illegal child of DIDL element: <{urn:schemas-upnp-org:metadata-1-0/DIDL-Lite/}foo>''),
      [])"
    by code_simp
  show ?thesis using i t c n r by blast
qed

end
